theory Spec2Isabelle
  imports Complex_Main "HOL-Library.Sublist"
begin

section \<open>Python strings and lists\<close>

text \<open>
  A Python \<open>str\<close> is modelled as a \<^typ>\<open>string\<close>: one \<^typ>\<open>char\<close> per code point,
  for texts whose code points are below 256. Exceptions are values of \<open>py_error\<close>;
  \<open>SyntaxError\<close> carries the text that \<open>str(e)\<close> gives, and stands for its
  subclasses as well (\<open>except SyntaxError\<close> catches them all). \<open>OtherError\<close> is
  any exception raised by a collaborator (the model service, the version-control
  command, \<open>inspect\<close>).
\<close>

datatype py_error =
    SyntaxError string
  | TypeError
  | AttributeError
  | IndexError
  | UnboundLocalError
  | FileNotFoundError
  | OtherError string

text \<open>
  \<open>find_first pat s\<close> splits \<open>s\<close> around the leftmost occurrence of \<open>pat\<close>
  (what \<open>str.partition\<close> and a left-to-right scan compute): the text before it and
  the text after it, or \<open>None\<close> when \<open>pat\<close> does not occur.
\<close>

fun find_first :: "'a list \<Rightarrow> 'a list \<Rightarrow> ('a list \<times> 'a list) option" where
  "find_first pat [] = (if pat = [] then Some ([], []) else None)"
| "find_first pat (c # cs) =
     (if prefix pat (c # cs) then Some ([], drop (length pat) (c # cs))
      else map_option (\<lambda>(before, after). (c # before, after)) (find_first pat cs))"

lemma find_first_Some:
  "find_first pat s = Some (a, b) \<Longrightarrow> s = a @ pat @ b"
proof (induction s arbitrary: a)
  case Nil
  then show ?case by (simp split: if_splits)
next
  case (Cons c cs)
  show ?case
  proof (cases "prefix pat (c # cs)")
    case True
    then obtain r where r: "c # cs = pat @ r" by (auto simp: prefix_def)
    from True Cons.prems have "a = []" and "b = drop (length pat) (c # cs)" by simp_all
    with r show ?thesis by simp
  next
    case False
    with Cons.prems obtain a' where "find_first pat cs = Some (a', b)" and "a = c # a'"
      by auto
    with Cons.IH show ?thesis by simp
  qed
qed

lemma find_first_None: "find_first pat s = None \<longleftrightarrow> \<not> sublist pat s"
proof (induction s)
  case Nil
  then show ?case by simp
next
  case (Cons c cs)
  then show ?case by (auto simp: sublist_Cons_right)
qed

lemma find_first_shorter:
  "pat \<noteq> [] \<Longrightarrow> find_first pat s = Some (a, b) \<Longrightarrow> length b < length s"
  by (drule find_first_Some) (simp add: length_greater_0_conv [symmetric] del: length_greater_0_conv)

lemma find_first_leftmost:
  "find_first pat s = Some (a, b) \<Longrightarrow> s = a' @ pat @ b' \<Longrightarrow> length a \<le> length a'"
proof (induction s arbitrary: a a')
  case Nil
  then show ?case by (simp split: if_splits)
next
  case (Cons c cs)
  show ?case
  proof (cases "prefix pat (c # cs)")
    case True
    with Cons.prems(1) show ?thesis by simp
  next
    case False
    with Cons.prems(1) obtain a0 where a0: "find_first pat cs = Some (a0, b)" "a = c # a0"
      by auto
    from False Cons.prems(2) have "a' \<noteq> []" by (auto simp: prefix_def)
    then obtain a1 where a1: "a' = c # a1" using Cons.prems(2) by (cases a') auto
    with Cons.prems(2) have "cs = a1 @ pat @ b'" by simp
    from Cons.IH [OF a0(1) this] a0(2) a1 show ?thesis by simp
  qed
qed

text \<open>\<open>s.replace(old, new)\<close>: every occurrence, left to right, without overlap.\<close>

function py_replace :: "string \<Rightarrow> string \<Rightarrow> string \<Rightarrow> string" where
  "py_replace old new s =
     (if old = [] then new @ concat (map (\<lambda>c. c # new) s)
      else case find_first old s of
             None \<Rightarrow> s
           | Some (before, after) \<Rightarrow> before @ new @ py_replace old new after)"
  by pat_completeness auto
termination
  by (relation "measure (\<lambda>(old, new, s). length s)") (auto dest: find_first_shorter)

declare py_replace.simps [simp del]

text \<open>\<open>s.replace(old, new, 1)\<close>: the leftmost occurrence only.\<close>

definition py_replace_first :: "string \<Rightarrow> string \<Rightarrow> string \<Rightarrow> string" where
  "py_replace_first old new s =
     (case find_first old s of
        None \<Rightarrow> s
      | Some (before, after) \<Rightarrow> before @ new @ after)"

text \<open>\<open>s.split(sep)\<close> for a separator of one character.\<close>

fun split_on :: "char \<Rightarrow> string \<Rightarrow> string list" where
  "split_on sep [] = [[]]"
| "split_on sep (c # cs) =
     (case split_on sep cs of
        [] \<Rightarrow> [[c]]
      | piece # pieces \<Rightarrow> if c = sep then [] # piece # pieces else (c # piece) # pieces)"

text \<open>\<open>sep.join(xs)\<close>.\<close>

fun py_join :: "string \<Rightarrow> string list \<Rightarrow> string" where
  "py_join sep [] = []"
| "py_join sep [x] = x"
| "py_join sep (x # y # ys) = x @ sep @ py_join sep (y # ys)"

text \<open>
  \<open>s.strip()\<close> removes the characters for which \<open>str.isspace\<close> holds from both ends:
  below 256 these are the code points 9 to 13, 28 to 32, 133 and 160.
\<close>

definition py_isspace :: "char \<Rightarrow> bool" where
  "py_isspace c =
     (let n = (of_char c :: nat)
      in (9 \<le> n \<and> n \<le> 13) \<or> (28 \<le> n \<and> n \<le> 32) \<or> n = 133 \<or> n = 160)"

definition py_strip :: "string \<Rightarrow> string" where
  "py_strip s = rev (dropWhile py_isspace (rev (dropWhile py_isspace s)))"

text \<open>\<open>xs[i]\<close> for a literal index \<open>i \<ge> 0\<close>; out of range it raises \<open>IndexError\<close>.\<close>

definition py_index :: "'a list \<Rightarrow> nat \<Rightarrow> py_error + 'a" where
  "py_index xs i = (if i < length xs then Inr (xs ! i) else Inl IndexError)"

text \<open>\<open>xs[-n:]\<close>: the last \<open>n\<close> elements, or all of them when there are fewer.\<close>

definition py_last_n :: "nat \<Rightarrow> 'a list \<Rightarrow> 'a list" where
  "py_last_n n xs = drop (length xs - n) xs"

text \<open>What an f-string writes for a value that is a \<open>str\<close> or \<open>None\<close>.\<close>

definition py_format :: "string option \<Rightarrow> string" where
  "py_format v = (case v of None \<Rightarrow> ''None'' | Some s \<Rightarrow> s)"

section \<open>Response Code Extractor\<close>

text \<open>
  \<open>extract_all_python_code\<close> (lines 52 to 59). The pattern is the start marker, a
  lazy \<open>(.*?)\<close> under \<open>re.DOTALL\<close>, and the end marker; \<open>findall\<close> scans left to
  right and resumes after each match. A match starts at the leftmost start marker
  and ends at the first end marker after it; the start marker cannot overlap
  itself, so when the leftmost one has no end marker after it no later one has.
\<close>

definition start_marker :: string where
  "start_marker = ''```python''"

definition end_marker :: string where
  "end_marker = ''```''"

function findall_fenced :: "string \<Rightarrow> string list" where
  "findall_fenced s =
     (case find_first start_marker s of
        None \<Rightarrow> []
      | Some (skipped, rest) \<Rightarrow>
          (case find_first end_marker rest of
             None \<Rightarrow> []
           | Some (body, rest') \<Rightarrow> body # findall_fenced rest'))"
  by pat_completeness auto
termination
proof (relation "measure length")
  show "wf (measure length)" by simp
next
  fix s :: string and x2 skipped rest x2a body rest'
  assume a: "find_first start_marker s = Some x2" "(skipped, rest) = x2"
    and b: "find_first end_marker rest = Some x2a" "(body, rest') = x2a"
  from a have "s = skipped @ start_marker @ rest" by (auto dest: find_first_Some)
  moreover from b have "rest = body @ end_marker @ rest'" by (auto dest: find_first_Some)
  ultimately have "length rest' < length s" by (simp add: start_marker_def)
  then show "(rest', s) \<in> measure length" by simp
qed

declare findall_fenced.simps [simp del]

definition extract_all_python_code :: "string \<Rightarrow> string option" where
  "extract_all_python_code s =
     (let matches = findall_fenced s
      in if matches = [] then None else Some (concat (map py_strip matches)))"

section \<open>Artifact Path Mapper\<close>

text \<open>
  Lines 238 and 286: \<open>file_path[::-1].replace("\\", "/test_", 1)[::-1]\<close>. The
  character replaced is the backslash (code point 92).
\<close>

definition backslash :: char where
  "backslash = CHR 0x5C"

definition unit_test_path_of :: "string \<Rightarrow> string" where
  "unit_test_path_of file_path = rev (py_replace_first [backslash] ''/test_'' (rev file_path))"

section \<open>Messages, requests and the state of a run\<close>

text \<open>A message is the dictionary \<open>{"role": ..., "content": ...}\<close>.\<close>

record message =
  role :: string
  content :: string

text \<open>The keyword arguments of \<open>openai.ChatCompletion.create\<close> (lines 24 to 31).\<close>

record request =
  req_engine :: string
  req_model :: string
  req_messages :: "message list"
  req_max_tokens :: int
  req_temperature :: real
  req_stream :: bool

text \<open>
  What a run changes: the regular files (path to text, as text-mode \<open>read\<close> and
  \<open>write\<close> see it; directories are taken to exist where a file is opened for
  writing), the requests sent to the model service, the lines printed, and the list
  object that is the default value of \<open>input_messages\<close> (created once, when
  \<open>chat_gpt_wrapper\<close> is defined).
\<close>

record world =
  files :: "string \<rightharpoonup> string"
  requests :: "request list"
  stdout :: "string list"
  default_messages :: "message list"

text \<open>
  The collaborators: \<open>completion n req\<close> is the content of the first choice of the
  service's answer to \<open>req\<close>, the \<open>n\<close>-th request of the run counted from 0, or the
  exception the call raises; \<open>ast_parse src\<close> is \<open>None\<close> when \<open>ast.parse\<close> accepts
  the text \<open>src\<close> and the exception it raises otherwise; \<open>git_diff path\<close> is the
  decoded output of \<open>git diff\<close> for that path against the upstream branch, or the exception raised.
\<close>

record env =
  completion :: "nat \<Rightarrow> request \<Rightarrow> py_error + string"
  ast_parse :: "string \<Rightarrow> py_error option"
  git_diff :: "string \<Rightarrow> py_error + string"

text \<open>\<open>ast.parse(code_output)\<close>: given \<open>None\<close>, \<open>compile\<close> raises \<open>TypeError\<close>.\<close>

definition py_ast_parse :: "env \<Rightarrow> string option \<Rightarrow> py_error option" where
  "py_ast_parse E code_output =
     (case code_output of None \<Rightarrow> Some TypeError | Some src \<Rightarrow> ast_parse E src)"

definition assistant :: "string \<Rightarrow> message" where
  "assistant text = \<lparr>role = ''assistant'', content = text\<rparr>"

definition user :: "string \<Rightarrow> message" where
  "user text = \<lparr>role = ''user'', content = text\<rparr>"

definition system :: "string \<Rightarrow> message" where
  "system text = \<lparr>role = ''system'', content = text\<rparr>"

definition print :: "string \<Rightarrow> world \<Rightarrow> world" where
  "print line w = w\<lparr>stdout := stdout w @ [line]\<rparr>"

section \<open>Validated Generation Loop\<close>

text \<open>The request of lines 24 to 31.\<close>

definition create_request :: "string \<Rightarrow> string \<Rightarrow> message list \<Rightarrow> int \<Rightarrow> real \<Rightarrow> request" where
  "create_request engine model messages max_tokens temperature =
     \<lparr>req_engine = engine, req_model = model, req_messages = messages,
      req_max_tokens = max_tokens, req_temperature = temperature, req_stream = False\<rparr>"

text \<open>
  \<open>chat_gpt_wrapper\<close> (lines 11 to 49). The list \<open>input_messages\<close> is changed in
  place, so the model returns it in every outcome, an exception included: the
  result is the outcome (the exception, or the returned \<open>code_output\<close>), the list
  object's final value, and the world. The recursive call passes no \<open>model\<close>.
\<close>

function chat_gpt_wrapper ::
  "env \<Rightarrow> message list \<Rightarrow> string \<Rightarrow> string \<Rightarrow> int \<Rightarrow> real \<Rightarrow> int \<Rightarrow> world
     \<Rightarrow> (py_error + string option) \<times> message list \<times> world" where
  "chat_gpt_wrapper E input_messages engine model max_tokens temperature reruns_if_fail w =
     (let req = create_request engine model input_messages max_tokens temperature;
          w1 = w\<lparr>requests := requests w @ [req]\<rparr>
      in case completion E (length (requests w)) req of
           Inl e \<Rightarrow> (Inl e, input_messages, w1)
         | Inr unit_test_completion \<Rightarrow>
             (let input_messages1 = input_messages @ [assistant unit_test_completion];
                  code_output = extract_all_python_code unit_test_completion
              in case py_ast_parse E code_output of
                   None \<Rightarrow> (Inr code_output, input_messages1, w1)
                 | Some (SyntaxError e) \<Rightarrow>
                     (let w2 = print (''Syntax error in generated code: '' @ e) w1
                      in if reruns_if_fail > 0
                         then chat_gpt_wrapper E input_messages1 engine ''gpt-4'' max_tokens
                                temperature (reruns_if_fail - 1) (print ''Rerunning...'' w2)
                         else (Inr code_output, input_messages1, w2))
                 | Some e \<Rightarrow> (Inl e, input_messages1, w1)))"
  by pat_completeness auto
termination
  by (relation "measure (\<lambda>(E, ms, engine, model, max_tokens, temperature, reruns, w). nat reruns)")
    auto

declare chat_gpt_wrapper.simps [simp del]

text \<open>
  A call that gives no \<open>input_messages\<close>: the parameter is bound to the default
  list object, and what the call appends stays in that object.
\<close>

definition chat_gpt_wrapper_default ::
  "env \<Rightarrow> string \<Rightarrow> string \<Rightarrow> int \<Rightarrow> real \<Rightarrow> int \<Rightarrow> world
     \<Rightarrow> (py_error + string option) \<times> message list \<times> world" where
  "chat_gpt_wrapper_default E engine model max_tokens temperature reruns_if_fail w =
     (case chat_gpt_wrapper E (default_messages w) engine model max_tokens temperature
             reruns_if_fail w of
        (outcome, input_messages, w') \<Rightarrow>
          (outcome, input_messages, w'\<lparr>default_messages := input_messages\<rparr>))"

section \<open>Conversation Window Manager\<close>

text \<open>Lines 186 and 187: \<open>doc_messages[:1] + doc_messages[-4:]\<close> once the length exceeds 4.\<close>

definition trim_session :: "message list \<Rightarrow> message list" where
  "trim_session doc_messages =
     (if length doc_messages > 4 then take 1 doc_messages @ py_last_n 4 doc_messages
      else doc_messages)"

section \<open>File Splicing Engine\<close>

text \<open>
  Lines 189 to 200: read the file, flatten or indent the generated text, replace,
  write the file back. The generated text is \<open>None\<close> only if the call is reached
  with no code, where \<open>doc_code.startswith\<close> raises \<open>AttributeError\<close>. The new
  value of \<open>doc_code\<close> is returned with the world. This is the splice on the text
  of the file; \<open>splice_on_disk\<close> below is the same lines on its bytes, and
  \<open>splice_documentation_on_disk\<close> says when the two agree.
\<close>

definition newline :: char where
  "newline = CHR 0x0A"

definition splice_documentation ::
  "string \<Rightarrow> string \<Rightarrow> string option \<Rightarrow> world \<Rightarrow> (py_error \<times> world) + (string \<times> world)" where
  "splice_documentation file_path function_to_test doc_code w =
     (case files w file_path of
        None \<Rightarrow> Inl (FileNotFoundError, w)
      | Some file_content \<Rightarrow>
          (case doc_code of
             None \<Rightarrow> Inl (AttributeError, w)
           | Some code \<Rightarrow>
               (let doc_code1 =
                      (if prefix ''class'' code
                       then py_join [newline] (tl (split_on newline code))
                       else ''    '' @ py_replace [newline] (newline # ''    '') code);
                    new_content = py_replace function_to_test doc_code1 file_content
                in Inr (doc_code1, w\<lparr>files := (files w)(file_path \<mapsto> new_content)\<rparr>))))"

text \<open>
  \<open>with open(path, "w") as f: f.write(text)\<close>: opening truncates the file, and
  \<open>write(None)\<close> raises \<open>TypeError\<close>.
\<close>

definition write_file :: "string \<Rightarrow> string option \<Rightarrow> world \<Rightarrow> (py_error \<times> world) + world" where
  "write_file path text w =
     (case text of
        None \<Rightarrow> Inl (TypeError, w\<lparr>files := (files w)(path \<mapsto> [])\<rparr>)
      | Some s \<Rightarrow> Inr (w\<lparr>files := (files w)(path \<mapsto> s)\<rparr>))"

subsection \<open>Text-mode input and output\<close>

text \<open>
  The definitions above take the content of a file to be the text that text-mode
  \<open>read\<close> returns and \<open>write\<close> is given. On disk a file is a list of bytes, and
  \<open>open(path, "r")\<close> and \<open>open(path, "w")\<close> (no \<open>encoding\<close>, no \<open>newline\<close>)
  translate: reading decodes the bytes with the locale's codec and then turns every
  \<open>\r\n\<close> and every remaining \<open>\r\<close> into \<open>\n\<close>; writing turns every \<open>\n\<close>
  into \<open>os.linesep\<close> and then encodes. The codec and \<open>os.linesep\<close> belong to the
  platform; a codec raises on what it cannot decode or encode.
\<close>

definition carriage_return :: char where
  "carriage_return = CHR 0x0D"

fun universal_newlines :: "string \<Rightarrow> string" where
  "universal_newlines [] = []"
| "universal_newlines [c] = [if c = carriage_return then newline else c]"
| "universal_newlines (c # d # cs) =
     (if c = carriage_return \<and> d = newline then newline # universal_newlines cs
      else if c = carriage_return then newline # universal_newlines (d # cs)
      else c # universal_newlines (d # cs))"

definition write_translate :: "string \<Rightarrow> string \<Rightarrow> string" where
  "write_translate linesep s = concat (map (\<lambda>c. if c = newline then linesep else [c]) s)"

record text_io =
  io_decode :: "string \<Rightarrow> py_error + string"
  io_encode :: "string \<Rightarrow> py_error + string"
  io_linesep :: string

definition text_mode_read :: "text_io \<Rightarrow> string \<Rightarrow> py_error + string" where
  "text_mode_read io stored =
     (case io_decode io stored of
        Inl e \<Rightarrow> Inl e
      | Inr decoded \<Rightarrow> Inr (universal_newlines decoded))"

definition text_mode_write :: "text_io \<Rightarrow> string \<Rightarrow> py_error + string" where
  "text_mode_write io s = io_encode io (write_translate (io_linesep io) s)"

text \<open>
  Lines 189 to 200 on the bytes of the files: \<open>disk\<close> maps a path to the bytes
  stored there. Opening for writing truncates the file before anything is encoded.
\<close>

definition splice_on_disk ::
  "text_io \<Rightarrow> string \<Rightarrow> string \<Rightarrow> string option \<Rightarrow> (string \<rightharpoonup> string)
     \<Rightarrow> (py_error \<times> (string \<rightharpoonup> string)) + (string \<times> (string \<rightharpoonup> string))" where
  "splice_on_disk io file_path function_to_test doc_code disk =
     (case disk file_path of
        None \<Rightarrow> Inl (FileNotFoundError, disk)
      | Some stored \<Rightarrow>
     (case text_mode_read io stored of
        Inl e \<Rightarrow> Inl (e, disk)
      | Inr file_content \<Rightarrow>
     (case doc_code of
        None \<Rightarrow> Inl (AttributeError, disk)
      | Some code \<Rightarrow>
     (let doc_code1 =
            (if prefix ''class'' code
             then py_join [newline] (tl (split_on newline code))
             else ''    '' @ py_replace [newline] (newline # ''    '') code);
          new_content = py_replace function_to_test doc_code1 file_content
      in case text_mode_write io new_content of
        Inl e \<Rightarrow> Inl (e, disk(file_path \<mapsto> []))
      | Inr written \<Rightarrow> Inr (doc_code1, disk(file_path \<mapsto> written))))))"

section \<open>The generation pipeline\<close>

text \<open>
  The catalog (\<open>import_all_modules\<close>, a collaborator) gives, per file, an optional
  \<open>"objects"\<close> dictionary from a name to a dictionary of methods, to another truthy
  object (a function) or to a falsy value. Of an object the pipeline reads
  \<open>str(obj)\<close> and \<open>inspect.getsource(obj)\<close>. Dictionaries are lists of pairs in
  iteration order.
\<close>

record callable =
  py_str :: string
  py_getsource :: "py_error + string"

datatype obj_value = Methods "(string \<times> callable) list" | Function callable | Falsy

text \<open>
  The local variables of \<open>generate_unit_test\<close> that live across loop iterations.
  \<open>class_name\<close> is \<open>None\<close> while the name is unbound; where a definition binds
  the value of \<open>class_name\<close> it is written \<open>cn\<close>.
\<close>

record locals =
  messages :: "message list"
  doc_messages :: "message list"
  class_name :: "string option"
  generated_unit_test :: string

text \<open>The two system prompts (lines 132 to 165); \<open>directory_dict\<close> is its \<open>str\<close>.\<close>

definition doc_prompt :: "string \<Rightarrow> string" where
  \<open>doc_prompt doc_package =
     ''you are providing documentation and typing (type hints) of code to be used in '' @
     doc_package @
     '', as an example for the function\<newline>'' @
     ''    ```python\<newline>'' @
     ''    def read_s3_file(self, file_path):\<newline>'' @
     ''        file_res = urlparse(file_path)\<newline>'' @
     ''        try:\<newline>'' @
     ''            file_obj = s3_resource.Object(file_res.netloc, file_res.path.lstrip("/"))\<newline>'' @
     ''            return file_obj.get()["Body"].read()\<newline>'' @
     ''        except ClientError:\<newline>'' @
     ''            raise FileNotFoundError(f"File cannot be found in S3 given path file_path"):\<newline>'' @
     ''    ```\<newline>'' @
     ''    this is a proper response:\<newline>'' @
     ''    ```python\<newline>'' @
     ''    def read_s3_file(self, file_path:str)->str:\<newline>'' @
     ''    """\<newline>'' @
     ''    Reads the contents of a file from an S3 bucket.\<newline>'' @
     ''    :param file_path: The S3 URI of the file to read, e.g. "s3://my-bucket/my-file.txt".\<newline>'' @
     ''    :type file_path: str\<newline>'' @
     ''    :return: The contents of the file as a byte string.\<newline>'' @
     ''    :rtype: bytes\<newline>'' @
     ''    :raises FileNotFoundError: If the file cannot be found in the specified S3 bucket.\<newline>'' @
     ''    :Example:\<newline>'' @
     ''    (some examples)\<newline>'' @
     ''    """\<newline>'' @
     ''    file_res = urlparse(file_path)\<newline>'' @
     ''    try:\<newline>'' @
     ''        file_obj = s3_resource.Object(file_res.netloc, file_res.path.lstrip("/"))\<newline>'' @
     ''        return file_obj.get()["Body"].read()\<newline>'' @
     ''    except ClientError:\<newline>'' @
     ''        raise FileNotFoundError(f"File cannot be found in S3 given path file_path")\<newline>'' @
     ''    ```\<newline>'' @
     ''    ''\<close>

definition full_prompt :: "string \<Rightarrow> string \<Rightarrow> string \<Rightarrow> string \<Rightarrow> string" where
  "full_prompt unit_test_package platform repo_explanation directory_dict =
     ''you are providing unit test using '' @ unit_test_package @ ''` and '' @ platform @
     replicate 8 CHR '' '' @ repo_explanation @
     ''. to give details about the structure of the repo look at the dictionary below, it includes all files'' @
     replicate 8 CHR '' '' @
     ''and if python, all function and classes, if json first and second level keys and if csv, the column names :'' @
     directory_dict @ '',''"

text \<open>Lines 176 and 177: the class and the function name, cut out of \<open>str(class_method)\<close>.\<close>

definition method_names :: "callable \<Rightarrow> py_error + (string \<times> string)" where
  "method_names class_method =
     (case py_index (split_on CHR ''.'' (py_str class_method)) 0 of
        Inl e \<Rightarrow> Inl e
      | Inr before_dot \<Rightarrow>
     (case py_index (split_on CHR '' '' before_dot) 1 of
        Inl e \<Rightarrow> Inl e
      | Inr cn \<Rightarrow>
     (case py_index (split_on CHR ''.'' (py_str class_method)) 1 of
        Inl e \<Rightarrow> Inl e
      | Inr after_dot \<Rightarrow>
     (case py_index (split_on CHR '' '' after_dot) 0 of
        Inl e \<Rightarrow> Inl e
      | Inr function_name \<Rightarrow> Inr (cn, function_name)))))"

text \<open>The prompts of lines 182, 202 to 207 and 220 to 225.\<close>

definition doc_request :: "string \<Rightarrow> string \<Rightarrow> string \<Rightarrow> string" where
  "doc_request function_to_test cn doc_package =
     ''provide documentation for '' @ function_to_test @ '' in class '' @ cn @
     '' that can be used in '' @ doc_package"

definition request_for_unit_test :: "string \<Rightarrow> string \<Rightarrow> string \<Rightarrow> string \<Rightarrow> string" where
  "request_for_unit_test function_name cn function_to_test file_path =
     '' provide unit test for the function `'' @ function_name @ '' in '' @ cn @ ''`.'' @
     replicate 32 CHR '' '' @ ''```python'' @
     replicate 32 CHR '' '' @ function_to_test @ '' '' @
     replicate 32 CHR '' '' @ ''```'' @
     replicate 32 CHR '' '' @ ''and the path of the function is '' @ file_path @
     replicate 32 CHR '' ''"

definition prompt_to_explain_the_function :: "string \<Rightarrow> string \<Rightarrow> string \<Rightarrow> string" where
  "prompt_to_explain_the_function function_name function_to_test file_path =
     '' provide unit test for the function `'' @ function_name @ ''`.'' @
     replicate 28 CHR '' '' @ ''```python'' @
     replicate 28 CHR '' '' @ function_to_test @ '' '' @
     replicate 28 CHR '' '' @ ''```'' @
     replicate 28 CHR '' '' @ ''and the path of the function is '' @ file_path @
     replicate 28 CHR '' ''"

definition current_test_path :: "string \<Rightarrow> string \<Rightarrow> string" where
  "current_test_path cn function_name =
     ''test_code/unit_test/test_'' @ cn @ ''_'' @ function_name @ ''.py''"

text \<open>
  One method of a class (lines 176 to 216). Both calls of \<open>chat_gpt_wrapper\<close> give
  \<open>input_messages\<close> only, so the other parameters have their defaults. Lines 211
  and 212 test the length of \<open>doc_messages\<close> and cut the text \<open>doc_code\<close>, which
  is not read again; \<open>messages\<close> is assigned the list the call returns.
\<close>

definition process_method ::
  "env \<Rightarrow> string \<Rightarrow> string \<Rightarrow> callable \<Rightarrow> locals \<Rightarrow> world
     \<Rightarrow> (py_error \<times> world) + (locals \<times> world)" where
  "process_method E doc_package file_path class_method L w =
     (case method_names class_method of
        Inl e \<Rightarrow> Inl (e, w)
      | Inr (cn, function_name) \<Rightarrow>
     (case py_getsource class_method of
        Inl e \<Rightarrow> Inl (e, w)
      | Inr function_to_test \<Rightarrow>
     (case chat_gpt_wrapper E
             (doc_messages L @ [user (doc_request function_to_test cn doc_package)])
             ''GPT4'' ''gpt-4'' 1000 0.2 0 w of
        (Inl e, doc_messages1, w1) \<Rightarrow> Inl (e, w1)
      | (Inr doc_code, doc_messages1, w1) \<Rightarrow>
     (let doc_messages2 = trim_session doc_messages1
      in case splice_documentation file_path function_to_test doc_code w1 of
        Inl x \<Rightarrow> Inl x
      | Inr (doc_code1, w2) \<Rightarrow>
     (case chat_gpt_wrapper E
             (messages L @
                [user (request_for_unit_test function_name cn function_to_test file_path)])
             ''GPT4'' ''gpt-4'' 1000 0.2 0 w2 of
        (Inl e, messages1, w3) \<Rightarrow> Inl (e, w3)
      | (Inr unit_test_code, messages1, w3) \<Rightarrow>
     (let doc_code2 =
            (if length doc_messages2 > 4 then take 1 doc_code1 @ py_last_n 4 doc_code1
             else doc_code1);
          generated =
            generated_unit_test L @ function_name @ '' in class '' @ cn @ ''`'' @ [newline] @
            py_format unit_test_code
      in case write_file (current_test_path cn function_name) unit_test_code w3 of
        Inl x \<Rightarrow> Inl x
      | Inr w4 \<Rightarrow>
          Inr (\<lparr>messages = messages1, doc_messages = doc_messages2, class_name = Some cn,
                generated_unit_test = generated\<rparr>, w4)))))))"

text \<open>
  A standalone function (lines 218 to 237). The path of its test file reads
  \<open>class_name\<close>, which this branch does not assign.
\<close>

definition process_function ::
  "env \<Rightarrow> string \<Rightarrow> string \<Rightarrow> int \<Rightarrow> real \<Rightarrow> string \<Rightarrow> string \<Rightarrow> callable \<Rightarrow> locals \<Rightarrow> world
     \<Rightarrow> (py_error \<times> world) + (locals \<times> world)" where
  "process_function E engine model max_tokens temperature file_path obj_key obj_value L w =
     (let function_name = obj_key
      in case py_getsource obj_value of
        Inl e \<Rightarrow> Inl (e, w)
      | Inr function_to_test \<Rightarrow>
     (case chat_gpt_wrapper E
             (messages L @
                [user (prompt_to_explain_the_function function_name function_to_test file_path)])
             engine model max_tokens temperature 0 w of
        (Inl e, messages1, w1) \<Rightarrow> Inl (e, w1)
      | (Inr unit_test_code, messages1, w1) \<Rightarrow>
     (let generated =
            generated_unit_test L @ function_name @ ''`'' @ [newline] @ py_format unit_test_code
      in case class_name L of
        None \<Rightarrow> Inl (UnboundLocalError, w1)
      | Some cn \<Rightarrow>
     (case write_file (current_test_path cn function_name) unit_test_code w1 of
        Inl x \<Rightarrow> Inl x
      | Inr w2 \<Rightarrow> Inr (L\<lparr>messages := messages1, generated_unit_test := generated\<rparr>, w2)))))"

text \<open>The loops of lines 175, 172 and 169; an exception ends them all.\<close>

fun process_methods ::
  "env \<Rightarrow> string \<Rightarrow> string \<Rightarrow> (string \<times> callable) list \<Rightarrow> locals \<Rightarrow> world
     \<Rightarrow> (py_error \<times> world) + (locals \<times> world)" where
  "process_methods E doc_package file_path [] L w = Inr (L, w)"
| "process_methods E doc_package file_path ((class_method_name, class_method) # rest) L w =
     (case process_method E doc_package file_path class_method L w of
        Inl x \<Rightarrow> Inl x
      | Inr (L', w') \<Rightarrow> process_methods E doc_package file_path rest L' w')"

fun process_objects ::
  "env \<Rightarrow> string \<Rightarrow> string \<Rightarrow> string \<Rightarrow> int \<Rightarrow> real \<Rightarrow> string \<Rightarrow> (string \<times> obj_value) list
     \<Rightarrow> locals \<Rightarrow> world \<Rightarrow> (py_error \<times> world) + (locals \<times> world)" where
  "process_objects E doc_package engine model max_tokens temperature file_path [] L w =
     Inr (L, w)"
| "process_objects E doc_package engine model max_tokens temperature file_path
     ((obj_key, obj_value) # rest) L w =
     (case (case obj_value of
              Falsy \<Rightarrow> Inr (L, w)
            | Methods methods \<Rightarrow> process_methods E doc_package file_path methods L w
            | Function f \<Rightarrow>
                process_function E engine model max_tokens temperature file_path obj_key f L w) of
        Inl x \<Rightarrow> Inl x
      | Inr (L', w') \<Rightarrow>
          process_objects E doc_package engine model max_tokens temperature file_path rest L' w')"

fun process_files ::
  "env \<Rightarrow> string \<Rightarrow> string \<Rightarrow> string \<Rightarrow> int \<Rightarrow> real
     \<Rightarrow> (string \<times> (string \<times> obj_value) list option) list
     \<Rightarrow> locals \<Rightarrow> world \<Rightarrow> (py_error \<times> world) + (locals \<times> world)" where
  "process_files E doc_package engine model max_tokens temperature [] L w = Inr (L, w)"
| "process_files E doc_package engine model max_tokens temperature
     ((file_path, objects) # rest) L w =
     (let L0 = L\<lparr>generated_unit_test := []\<rparr>
      in case objects of
        None \<Rightarrow> process_files E doc_package engine model max_tokens temperature rest L0 w
      | Some objs \<Rightarrow>
     (case process_objects E doc_package engine model max_tokens temperature file_path objs L0 w of
        Inl x \<Rightarrow> Inl x
      | Inr (L1, w1) \<Rightarrow>
          process_files E doc_package engine model max_tokens temperature rest L1
            (w1\<lparr>files := (files w1)(unit_test_path_of file_path \<mapsto> generated_unit_test L1)\<rparr>)))"

text \<open>
  \<open>generate_unit_test\<close> (lines 90 to 240), given the catalog that
  \<open>import_all_modules\<close> returned. The result is the exception that ended the run,
  if any, and the world.
\<close>

definition initial_locals :: "string \<Rightarrow> string \<Rightarrow> string \<Rightarrow> string \<Rightarrow> string \<Rightarrow> locals" where
  "initial_locals directory_dict repo_explanation unit_test_package doc_package platform =
     \<lparr>messages = [system (full_prompt unit_test_package platform repo_explanation directory_dict)],
      doc_messages = [system (doc_prompt doc_package)],
      class_name = None,
      generated_unit_test = []\<rparr>"

definition generate_unit_test ::
  "env \<Rightarrow> (string \<times> (string \<times> obj_value) list option) list \<Rightarrow> string \<Rightarrow> string \<Rightarrow> string
     \<Rightarrow> string \<Rightarrow> string \<Rightarrow> string \<Rightarrow> string \<Rightarrow> int \<Rightarrow> real \<Rightarrow> world \<Rightarrow> py_error option \<times> world" where
  "generate_unit_test E object_dict directory_dict repo_explanation unit_test_package
     doc_package platform engine model max_tokens temperature w =
     (case process_files E doc_package engine model max_tokens temperature object_dict
             (initial_locals directory_dict repo_explanation unit_test_package doc_package platform)
             w of
        Inl (e, w') \<Rightarrow> (Some e, w')
      | Inr (L, w') \<Rightarrow> (None, w'))"

section \<open>Change-Driven Dispatcher\<close>

text \<open>
  The body of the loop of lines 284 to 307 for one entry of \<open>modified_code_files\<close>,
  and the loop. \<open>file_extension\<close> is computed and not used. The result is the
  exception that ended the run, if any, and the world.
\<close>

definition process_change :: "env \<Rightarrow> string \<Rightarrow> string \<Rightarrow> world \<Rightarrow> py_error option \<times> world" where
  "process_change E file_path status w =
     (let unit_test_path = unit_test_path_of file_path
      in if status = ''D''
         then (if files w unit_test_path \<noteq> None
               then (None, w\<lparr>files := (files w)(unit_test_path := None)\<rparr>)
               else (None, w))
         else (case git_diff E file_path of
                 Inl e \<Rightarrow> (Some e, w)
               | Inr git_diff_output \<Rightarrow>
                   (let git_diff_lines = split_on newline git_diff_output
                    in (None,
                        w\<lparr>stdout := stdout w @
                             filter (\<lambda>line. prefix ''+ def'' line \<or> prefix ''- def'' line)
                               git_diff_lines\<rparr>))))"

fun dispatch :: "env \<Rightarrow> (string \<times> string) list \<Rightarrow> world \<Rightarrow> py_error option \<times> world" where
  "dispatch E [] w = (None, w)"
| "dispatch E ((file_path, status) # rest) w =
     (case process_change E file_path status w of
        (Some e, w') \<Rightarrow> (Some e, w')
      | (None, w') \<Rightarrow> dispatch E rest w')"

section \<open>Example inputs\<close>

text \<open>Stub collaborators and worlds on which the theorems below are run.\<close>

definition fenced_invalid :: string where
  "fenced_invalid = ''```python\<newline>def f(:\<newline>```''"

definition fenced_valid :: string where
  "fenced_valid = ''```python\<newline>pass\<newline>```''"

definition invalid_stub :: env where
  "invalid_stub =
     \<lparr>completion = (\<lambda>n req. Inr fenced_invalid),
      ast_parse = (\<lambda>src. Some (SyntaxError ''invalid syntax'')),
      git_diff = (\<lambda>path. Inr [])\<rparr>"

definition valid_stub :: env where
  "valid_stub =
     \<lparr>completion = (\<lambda>n req. Inr fenced_valid),
      ast_parse = (\<lambda>src. None),
      git_diff = (\<lambda>path. Inr [])\<rparr>"

definition empty_world :: world where
  "empty_world = \<lparr>files = Map.empty, requests = [], stdout = [], default_messages = []\<rparr>"

definition world_after_first :: world where
  "world_after_first =
     \<lparr>files = Map.empty, requests = [create_request ''GPT4'' ''gpt-4'' [] 1000 0.2], stdout = [],
      default_messages = [assistant fenced_valid]\<rparr>"

definition world_after_second :: world where
  "world_after_second =
     \<lparr>files = Map.empty,
      requests = [create_request ''GPT4'' ''gpt-4'' [] 1000 0.2,
                  create_request ''GPT4'' ''gpt-4'' [assistant fenced_valid] 1000 0.2],
      stdout = [],
      default_messages = [assistant fenced_valid, assistant fenced_valid]\<rparr>"

definition diff_stub :: env where
  "diff_stub =
     \<lparr>completion = (\<lambda>n req. Inr fenced_valid),
      ast_parse = (\<lambda>src. None),
      git_diff = (\<lambda>path. Inr ''+ def f(x):\<newline>-    return 1\<newline>- def g():'')\<rparr>"

definition windows_path :: string where
  "windows_path = ''src'' @ [backslash] @ ''m.py''"

definition world_with_artifact :: world where
  "world_with_artifact =
     \<lparr>files = [''src_tset/m.py'' \<mapsto> ''def test_f(): pass''], requests = [], stdout = [],
      default_messages = []\<rparr>"

definition world_with_source :: world where
  "world_with_source =
     \<lparr>files = [''m.py'' \<mapsto> ''def f(): pass''], requests = [], stdout = [],
      default_messages = []\<rparr>"

definition nocode_stub :: env where
  "nocode_stub =
     \<lparr>completion = (\<lambda>n req. Inr ''I cannot help with that.''),
      ast_parse = (\<lambda>src. None),
      git_diff = (\<lambda>path. Inr [])\<rparr>"

definition method_f :: callable where
  "method_f = \<lparr>py_str = ''<function C.f at 0x1>'', py_getsource = Inr ''def f(): pass''\<rparr>"

definition method_g :: callable where
  "method_g = \<lparr>py_str = ''<function C.g at 0x2>'', py_getsource = Inr ''def g(): pass''\<rparr>"

definition method_h :: callable where
  "method_h = \<lparr>py_str = ''<function C.h at 0x3>'', py_getsource = Inr ''def h(): pass''\<rparr>"


definition start_locals :: locals where
  "start_locals = initial_locals ''{}'' ''a repo'' ''pytest'' ''sphinx'' ''Python 3.9''"


text \<open>
  The \<open>ascii\<close> codec on a platform whose \<open>os.linesep\<close> is \<open>\n\<close>, and three
  disks: a file with \<open>\n\<close> line ends, the same file with \<open>\r\n\<close> line ends, and
  a file that holds the byte 255.
\<close>

definition ascii_codec :: "string \<Rightarrow> py_error + string" where
  "ascii_codec s =
     (if list_all (\<lambda>c. (of_char c :: nat) < 128) s then Inr s
      else Inl (OtherError ''UnicodeError''))"

definition posix_ascii :: text_io where
  "posix_ascii = \<lparr>io_decode = ascii_codec, io_encode = ascii_codec, io_linesep = [newline]\<rparr>"

definition bytes_lf :: string where
  "bytes_lf = ''def f(): pass'' @ [newline]"

definition bytes_crlf :: string where
  "bytes_crlf = ''def f(): pass'' @ [carriage_return, newline]"

definition bytes_undecodable :: string where
  "bytes_undecodable = ''def f(): pass'' @ [CHR 0xFF]"

definition disk_lf :: "string \<rightharpoonup> string" where
  "disk_lf = [''m.py'' \<mapsto> bytes_lf]"

definition disk_crlf :: "string \<rightharpoonup> string" where
  "disk_crlf = [''m.py'' \<mapsto> bytes_crlf]"

definition disk_undecodable :: "string \<rightharpoonup> string" where
  "disk_undecodable = [''m.py'' \<mapsto> bytes_undecodable]"

section \<open>Properties\<close>

subsection \<open>Artifact Path Mapper\<close>

lemma unit_test_path_no_backslash:
  "backslash \<notin> set file_path \<Longrightarrow> unit_test_path_of file_path = file_path"
proof -
  assume "backslash \<notin> set file_path"
  then have "backslash \<notin> set (rev file_path)" by simp
  then have "\<not> sublist [backslash] (rev file_path)"
    unfolding sublist_def by (metis append_Cons in_set_conv_decomp)
  then have "find_first [backslash] (rev file_path) = None"
    by (simp add: find_first_None)
  then show ?thesis by (simp add: unit_test_path_of_def py_replace_first_def)
qed

lemma find_first_char: "c \<notin> set xs \<Longrightarrow> find_first [c] (xs @ c # ys) = Some (xs, ys)"
  by (induction xs) auto

lemma unit_test_path_last_backslash:
  assumes "backslash \<notin> set name"
  shows "unit_test_path_of (dir @ [backslash] @ name) = dir @ ''_tset/'' @ name"
proof -
  from assms have "backslash \<notin> set (rev name)" by simp
  then have "find_first [backslash] (rev name @ backslash # rev dir) = Some (rev name, rev dir)"
    by (rule find_first_char)
  then show ?thesis by (simp add: unit_test_path_of_def py_replace_first_def)
qed

text \<open>
  C1. The specification states that the mapper inserts \<open>test_\<close> before the final path segment, so that
  \<open>a/b/module.py\<close> maps to \<open>a/b/test_module.py\<close>. On the code the path
  \<open>a/b/module.py\<close> has no backslash and is returned unchanged: the generated-test
  path is the source path itself. With backslashes as separators the last one is
  replaced by the reversed text \<open>_tset/\<close>.
\<close>

theorem unit_test_path_forward_slashes:
  "unit_test_path_of ''a/b/module.py'' = ''a/b/module.py'' \<and>
   unit_test_path_of ''a/b/module.py'' \<noteq> ''a/b/test_module.py'' \<and>
   unit_test_path_of (''a'' @ [backslash] @ ''b'' @ [backslash] @ ''module.py'') =
     ''a'' @ [backslash] @ ''b_tset/module.py''"
  by (simp add: unit_test_path_of_def py_replace_first_def backslash_def)

subsection \<open>Validated Generation Loop\<close>

lemma wrapper_service_error:
  "completion E (length (requests w)) (create_request engine model ms mt temp) = Inl e \<Longrightarrow>
   chat_gpt_wrapper E ms engine model mt temp r w =
     (Inl e, ms, w\<lparr>requests := requests w @ [create_request engine model ms mt temp]\<rparr>)"
  by (subst chat_gpt_wrapper.simps) (simp add: Let_def)

lemma wrapper_parsed:
  "completion E (length (requests w)) (create_request engine model ms mt temp) = Inr reply \<Longrightarrow>
   py_ast_parse E (extract_all_python_code reply) = None \<Longrightarrow>
   chat_gpt_wrapper E ms engine model mt temp r w =
     (Inr (extract_all_python_code reply), ms @ [assistant reply],
      w\<lparr>requests := requests w @ [create_request engine model ms mt temp]\<rparr>)"
  by (subst chat_gpt_wrapper.simps) (simp add: Let_def)

lemma wrapper_other_error:
  "completion E (length (requests w)) (create_request engine model ms mt temp) = Inr reply \<Longrightarrow>
   py_ast_parse E (extract_all_python_code reply) = Some e \<Longrightarrow>
   \<forall>m. e \<noteq> SyntaxError m \<Longrightarrow>
   chat_gpt_wrapper E ms engine model mt temp r w =
     (Inl e, ms @ [assistant reply],
      w\<lparr>requests := requests w @ [create_request engine model ms mt temp]\<rparr>)"
  by (subst chat_gpt_wrapper.simps) (simp add: Let_def split: py_error.splits)

lemma wrapper_exhausted:
  "completion E (length (requests w)) (create_request engine model ms mt temp) = Inr reply \<Longrightarrow>
   py_ast_parse E (extract_all_python_code reply) = Some (SyntaxError m) \<Longrightarrow>
   \<not> 0 < r \<Longrightarrow>
   chat_gpt_wrapper E ms engine model mt temp r w =
     (Inr (extract_all_python_code reply), ms @ [assistant reply],
      print (''Syntax error in generated code: '' @ m)
        (w\<lparr>requests := requests w @ [create_request engine model ms mt temp]\<rparr>))"
  by (subst chat_gpt_wrapper.simps) (simp add: Let_def)

lemma wrapper_retry:
  "completion E (length (requests w)) (create_request engine model ms mt temp) = Inr reply \<Longrightarrow>
   py_ast_parse E (extract_all_python_code reply) = Some (SyntaxError m) \<Longrightarrow>
   0 < r \<Longrightarrow>
   chat_gpt_wrapper E ms engine model mt temp r w =
     chat_gpt_wrapper E (ms @ [assistant reply]) engine ''gpt-4'' mt temp (r - 1)
       (print ''Rerunning...'' (print (''Syntax error in generated code: '' @ m)
          (w\<lparr>requests := requests w @ [create_request engine model ms mt temp]\<rparr>)))"
  by (subst chat_gpt_wrapper.simps) (simp add: Let_def)

lemma wrapper_cases:
  obtains
    (service_error) e where "completion E (length (requests w)) (create_request engine model ms mt temp) = Inl e"
  | (parsed) reply where "completion E (length (requests w)) (create_request engine model ms mt temp) = Inr reply"
      "py_ast_parse E (extract_all_python_code reply) = None"
  | (other_error) reply e where "completion E (length (requests w)) (create_request engine model ms mt temp) = Inr reply"
      "py_ast_parse E (extract_all_python_code reply) = Some e" "\<forall>m. e \<noteq> SyntaxError m"
  | (exhausted) reply m where "completion E (length (requests w)) (create_request engine model ms mt temp) = Inr reply"
      "py_ast_parse E (extract_all_python_code reply) = Some (SyntaxError m)" "\<not> 0 < (r::int)"
  | (retry) reply m where "completion E (length (requests w)) (create_request engine model ms mt temp) = Inr reply"
      "py_ast_parse E (extract_all_python_code reply) = Some (SyntaxError m)" "0 < r"
proof (cases "completion E (length (requests w)) (create_request engine model ms mt temp)")
  case (Inl e)
  then show ?thesis by (rule service_error)
next
  case (Inr reply)
  show ?thesis
  proof (cases "py_ast_parse E (extract_all_python_code reply)")
    case None
    with Inr show ?thesis by (rule parsed)
  next
    case (Some e)
    show ?thesis
    proof (cases "\<exists>m. e = SyntaxError m")
      case True
      then obtain m where "e = SyntaxError m" ..
      with Inr Some show ?thesis by (cases "0 < r") (auto intro: exhausted retry)
    next
      case False
      with Inr Some show ?thesis by (auto intro: other_error)
    qed
  qed
qed

text \<open>The requests a call issues.\<close>

lemma wrapper_requests:
  "\<exists>reqs. requests (snd (snd (chat_gpt_wrapper E ms engine model mt temp r w))) =
            requests w @ create_request engine model ms mt temp # reqs \<and>
          int (length reqs) \<le> max 0 r \<and>
          (\<forall>q \<in> set reqs. req_model q = ''gpt-4'' \<and> req_engine q = engine \<and>
                           req_max_tokens q = mt \<and> req_temperature q = temp)"
proof (induction "nat r" arbitrary: r ms model w)
  case 0
  show ?case
    by (cases rule: wrapper_cases [where E=E and w=w and engine=engine and model=model and ms=ms and mt=mt and temp=temp and r=r])
       (use 0 in \<open>auto simp: wrapper_service_error wrapper_parsed wrapper_other_error wrapper_exhausted print_def\<close>)
next
  case (Suc n)
  show ?case
  proof (cases rule: wrapper_cases [where E=E and w=w and engine=engine and model=model and ms=ms and mt=mt and temp=temp and r=r])
    case (retry reply m)
    let ?w = "print ''Rerunning...'' (print (''Syntax error in generated code: '' @ m)
          (w\<lparr>requests := requests w @ [create_request engine model ms mt temp]\<rparr>))"
    from Suc.hyps(2) have n: "n = nat (r - 1)" by simp
    from Suc.hyps(1) [OF n, of "ms @ [assistant reply]" "''gpt-4''" ?w]
    obtain reqs where reqs: "requests (snd (snd (chat_gpt_wrapper E (ms @ [assistant reply]) engine ''gpt-4'' mt temp (r - 1) ?w))) =
            requests ?w @ create_request engine ''gpt-4'' (ms @ [assistant reply]) mt temp # reqs"
      "int (length reqs) \<le> max 0 (r - 1)"
      "\<forall>q \<in> set reqs. req_model q = ''gpt-4'' \<and> req_engine q = engine \<and>
                           req_max_tokens q = mt \<and> req_temperature q = temp"
      by blast
    show ?thesis
      apply (rule exI [of _ "create_request engine ''gpt-4'' (ms @ [assistant reply]) mt temp # reqs"])
      using reqs retry by (simp add: wrapper_retry print_def create_request_def)
  qed (auto simp: wrapper_service_error wrapper_parsed wrapper_other_error wrapper_exhausted print_def)
qed


lemma wrapper_frame:
  "files (snd (snd (chat_gpt_wrapper E ms engine model mt temp r w))) = files w \<and>
   default_messages (snd (snd (chat_gpt_wrapper E ms engine model mt temp r w))) = default_messages w"
proof (induction "nat r" arbitrary: r ms model w)
  case 0
  show ?case
    by (cases rule: wrapper_cases [where E=E and w=w and engine=engine and model=model and ms=ms and mt=mt and temp=temp and r=r])
       (use 0 in \<open>auto simp: wrapper_service_error wrapper_parsed wrapper_other_error wrapper_exhausted print_def\<close>)
next
  case (Suc n)
  show ?case
  proof (cases rule: wrapper_cases [where E=E and w=w and engine=engine and model=model and ms=ms and mt=mt and temp=temp and r=r])
    case (retry reply m)
    from Suc.hyps(2) have n: "n = nat (r - 1)" by simp
    show ?thesis
      using Suc.hyps(1) [OF n] retry by (simp add: wrapper_retry print_def)
  qed (auto simp: wrapper_service_error wrapper_parsed wrapper_other_error wrapper_exhausted print_def)
qed

lemma wrapper_session:
  "\<exists>replies. fst (snd (chat_gpt_wrapper E ms engine model mt temp r w)) = ms @ map assistant replies \<and>
     (\<forall>reply. completion E (length (requests w)) (create_request engine model ms mt temp) = Inr reply
        \<longrightarrow> replies \<noteq> [] \<and> hd replies = reply)"
proof (induction "nat r" arbitrary: r ms model w)
  case 0
  show ?case
    by (cases rule: wrapper_cases [where E=E and w=w and engine=engine and model=model and ms=ms and mt=mt and temp=temp and r=r])
       (use 0 in \<open>auto simp: wrapper_service_error wrapper_parsed wrapper_other_error wrapper_exhausted
            intro: exI [of _ "[]"] exI [of _ "[x]" for x]\<close>)
next
  case (Suc n)
  show ?case
  proof (cases rule: wrapper_cases [where E=E and w=w and engine=engine and model=model and ms=ms and mt=mt and temp=temp and r=r])
    case (retry reply m)
    let ?w = "print ''Rerunning...'' (print (''Syntax error in generated code: '' @ m)
          (w\<lparr>requests := requests w @ [create_request engine model ms mt temp]\<rparr>))"
    from Suc.hyps(2) have n: "n = nat (r - 1)" by simp
    from Suc.hyps(1) [OF n, of "ms @ [assistant reply]" "''gpt-4''" ?w]
    obtain replies where "fst (snd (chat_gpt_wrapper E (ms @ [assistant reply]) engine ''gpt-4'' mt temp (r - 1) ?w))
        = (ms @ [assistant reply]) @ map assistant replies" by blast
    then show ?thesis
      using retry by (intro exI [of _ "reply # replies"]) (simp add: wrapper_retry)
  qed (auto simp: wrapper_service_error wrapper_parsed wrapper_other_error wrapper_exhausted
            intro: exI [of _ "[]"] exI [of _ "[x]" for x])
qed

lemma wrapper_always_invalid:
  assumes inv: "\<forall>n req. \<exists>reply code m. completion E n req = Inr reply \<and>
        extract_all_python_code reply = Some code \<and> ast_parse E code = Some (SyntaxError m)"
  shows "\<exists>replies reqs w'.
     chat_gpt_wrapper E ms engine model mt temp (int n) w =
       (Inr (extract_all_python_code (last replies)), ms @ map assistant replies, w') \<and>
     requests w' = requests w @ reqs \<and> length reqs = n + 1 \<and> length replies = n + 1 \<and>
     (\<forall>k \<le> n. completion E (length (requests w) + k) (reqs ! k) = Inr (replies ! k) \<and>
              req_messages (reqs ! k) = ms @ map assistant (take k replies))"
proof (induction n arbitrary: ms model w)
  case 0
  let ?req = "create_request engine model ms mt temp"
  from inv obtain reply code m where r: "completion E (length (requests w)) ?req = Inr reply"
    "extract_all_python_code reply = Some code" "ast_parse E code = Some (SyntaxError m)"
    by blast
  then have p: "py_ast_parse E (extract_all_python_code reply) = Some (SyntaxError m)"
    by (simp add: py_ast_parse_def)
  show ?case
    apply (rule exI [of _ "[reply]"], rule exI [of _ "[?req]"])
    using r by (simp add: wrapper_exhausted [OF r(1) p] print_def create_request_def)
next
  case (Suc n)
  let ?req = "create_request engine model ms mt temp"
  from inv obtain reply code m where r: "completion E (length (requests w)) ?req = Inr reply"
    "extract_all_python_code reply = Some code" "ast_parse E code = Some (SyntaxError m)"
    by blast
  then have p: "py_ast_parse E (extract_all_python_code reply) = Some (SyntaxError m)"
    by (simp add: py_ast_parse_def)
  let ?w = "print ''Rerunning...'' (print (''Syntax error in generated code: '' @ m)
          (w\<lparr>requests := requests w @ [?req]\<rparr>))"
  have rw: "requests ?w = requests w @ [?req]" by (simp add: print_def)
  have step: "chat_gpt_wrapper E ms engine model mt temp (int (Suc n)) w =
      chat_gpt_wrapper E (ms @ [assistant reply]) engine ''gpt-4'' mt temp (int n) ?w"
    using wrapper_retry [OF r(1) p, of "int (Suc n)"] by simp
  from Suc.IH [of "ms @ [assistant reply]" "''gpt-4''" ?w]
  obtain replies reqs w' where ih:
    "chat_gpt_wrapper E (ms @ [assistant reply]) engine ''gpt-4'' mt temp (int n) ?w =
       (Inr (extract_all_python_code (last replies)), (ms @ [assistant reply]) @ map assistant replies, w')"
    "requests w' = requests ?w @ reqs" "length reqs = n + 1" "length replies = n + 1"
    "\<forall>k \<le> n. completion E (length (requests ?w) + k) (reqs ! k) = Inr (replies ! k) \<and>
              req_messages (reqs ! k) = (ms @ [assistant reply]) @ map assistant (take k replies)"
    by blast
  from ih(4) have ne: "replies \<noteq> []" by auto
  have all: "\<forall>k \<le> Suc n. completion E (length (requests w) + k) ((?req # reqs) ! k) = Inr ((reply # replies) ! k) \<and>
              req_messages ((?req # reqs) ! k) = ms @ map assistant (take k (reply # replies))"
  proof (intro allI impI)
    fix k assume k: "k \<le> Suc n"
    show "completion E (length (requests w) + k) ((?req # reqs) ! k) = Inr ((reply # replies) ! k) \<and>
              req_messages ((?req # reqs) ! k) = ms @ map assistant (take k (reply # replies))"
    proof (cases k)
      case 0
      with r(1) show ?thesis by (simp add: create_request_def)
    next
      case (Suc j)
      with k have "j \<le> n" by simp
      with ih(5) rw Suc show ?thesis by simp
    qed
  qed
  show ?case
    apply (rule exI [of _ "reply # replies"], rule exI [of _ "?req # reqs"], rule exI [of _ w'])
    using step ih(1-4) ne rw all by simp
qed

lemma extract_fenced_invalid: "extract_all_python_code fenced_invalid = Some ''def f(:''"
  by (simp add: fenced_invalid_def extract_all_python_code_def findall_fenced.simps start_marker_def end_marker_def
      py_strip_def py_isspace_def)

lemma extract_fenced_valid: "extract_all_python_code fenced_valid = Some ''pass''"
  by (simp add: fenced_valid_def extract_all_python_code_def findall_fenced.simps start_marker_def end_marker_def
      py_strip_def py_isspace_def)

text \<open>
  C4. With a retry budget \<open>R \<ge> 0\<close> and a model service whose every answer holds
  fenced code that \<open>ast.parse\<close> rejects with a \<open>SyntaxError\<close>, the call makes exactly
  \<open>R + 1\<close> requests, returns the text extracted from the last answer together with
  the session, and the session is the one given followed by all \<open>R + 1\<close> assistant
  replies; request \<open>k\<close> carried the session with the first \<open>k\<close> replies.
\<close>

theorem chat_gpt_wrapper_always_invalid:
  assumes "0 \<le> R"
    and "\<forall>n req. \<exists>reply code m. completion E n req = Inr reply \<and>
           extract_all_python_code reply = Some code \<and> ast_parse E code = Some (SyntaxError m)"
  shows "\<exists>replies reqs w'.
     chat_gpt_wrapper E session engine model max_tokens temperature R w =
       (Inr (extract_all_python_code (last replies)), session @ map assistant replies, w') \<and>
     requests w' = requests w @ reqs \<and> length reqs = nat R + 1 \<and> length replies = nat R + 1 \<and>
     (\<forall>k \<le> nat R. completion E (length (requests w) + k) (reqs ! k) = Inr (replies ! k) \<and>
              req_messages (reqs ! k) = session @ map assistant (take k replies))"
  using wrapper_always_invalid [OF assms(2), of session engine model max_tokens temperature "nat R" w]
    assms(1) by simp

theorem chat_gpt_wrapper_always_invalid_witness:
  "(0::int) \<le> 2 \<and>
   (\<forall>n req. \<exists>reply code m. completion invalid_stub n req = Inr reply \<and>
      extract_all_python_code reply = Some code \<and> ast_parse invalid_stub code = Some (SyntaxError m)) \<and>
   (\<exists>replies reqs w'.
     chat_gpt_wrapper invalid_stub [system ''s''] ''GPT4'' ''gpt-4'' 1000 0.2 2 empty_world =
       (Inr (extract_all_python_code (last replies)), [system ''s''] @ map assistant replies, w') \<and>
     requests w' = requests empty_world @ reqs \<and> length reqs = nat 2 + 1 \<and> length replies = nat 2 + 1 \<and>
     (\<forall>k \<le> nat 2. completion invalid_stub (length (requests empty_world) + k) (reqs ! k) = Inr (replies ! k) \<and>
              req_messages (reqs ! k) = [system ''s''] @ map assistant (take k replies)))"
proof -
  have h1: "(0::int) \<le> 2" by simp
  have h2: "\<forall>n req. \<exists>reply code m. completion invalid_stub n req = Inr reply \<and>
      extract_all_python_code reply = Some code \<and> ast_parse invalid_stub code = Some (SyntaxError m)"
    by (simp add: invalid_stub_def extract_fenced_invalid)
  from chat_gpt_wrapper_always_invalid [OF h1 h2] h1 h2 show ?thesis by blast
qed

text \<open>
  C8. Every request of a call after its first one, that is every retry, names the
  model \<open>gpt-4\<close> whatever model the caller passed; engine, output cap and
  temperature are the caller's. There are at most \<open>R\<close> retries.
\<close>

theorem retries_use_default_model:
  "\<exists>reqs. requests (snd (snd (chat_gpt_wrapper E session engine model max_tokens temperature R w))) =
            requests w @ create_request engine model session max_tokens temperature # reqs \<and>
          int (length reqs) \<le> max 0 R \<and>
          (\<forall>q \<in> set reqs. req_model q = ''gpt-4'' \<and> req_engine q = engine \<and>
                           req_max_tokens q = max_tokens \<and> req_temperature q = temperature)"
  by (rule wrapper_requests)

theorem retries_use_default_model_witness:
  "\<exists>reqs. requests (snd (snd (chat_gpt_wrapper invalid_stub [] ''GPT4'' ''gpt-3.5-turbo'' 1000 0.2 1 empty_world))) =
            create_request ''GPT4'' ''gpt-3.5-turbo'' [] 1000 0.2 # reqs \<and>
          length reqs = 1 \<and> req_model (hd reqs) = ''gpt-4''"
proof -
  have run: "requests (snd (snd (chat_gpt_wrapper invalid_stub [] ''GPT4'' ''gpt-3.5-turbo'' 1000 0.2 1 empty_world)))
    = [create_request ''GPT4'' ''gpt-3.5-turbo'' [] 1000 0.2,
       create_request ''GPT4'' ''gpt-4'' [assistant fenced_invalid] 1000 0.2]"
    by (simp add: chat_gpt_wrapper.simps invalid_stub_def empty_world_def extract_fenced_invalid
        py_ast_parse_def print_def Let_def)
  from retries_use_default_model [of invalid_stub "[]" "''GPT4''" "''gpt-3.5-turbo''" 1000 "0.2" 1 empty_world]
  obtain reqs where reqs: "requests (snd (snd (chat_gpt_wrapper invalid_stub [] ''GPT4'' ''gpt-3.5-turbo'' 1000 0.2 1 empty_world))) =
            requests empty_world @ create_request ''GPT4'' ''gpt-3.5-turbo'' [] 1000 0.2 # reqs"
      "\<forall>q \<in> set reqs. req_model q = ''gpt-4''" by blast
  from reqs(1) run have "reqs = [create_request ''GPT4'' ''gpt-4'' [assistant fenced_invalid] 1000 0.2]"
    by (simp add: empty_world_def)
  with reqs show ?thesis by (simp add: empty_world_def)
qed

text \<open>
  C10. Two successive calls that give no \<open>input_messages\<close>: the default list after
  the first call holds the assistant replies the first call appended, and the first
  request of the second call carries exactly that list.
\<close>

theorem default_session_is_shared:
  assumes first: "chat_gpt_wrapper_default E engine model max_tokens temperature R w0 = (out1, ms1, w1)"
    and second: "chat_gpt_wrapper_default E engine' model' max_tokens' temperature' R' w1 = (out2, ms2, w2)"
    and answered: "completion E (length (requests w0))
        (create_request engine model (default_messages w0) max_tokens temperature) = Inr reply"
  shows "default_messages w1 = ms1 \<and>
         (\<exists>replies. ms1 = default_messages w0 @ assistant reply # map assistant replies) \<and>
         (\<exists>reqs. requests w2 =
            requests w1 @ create_request engine' model' ms1 max_tokens' temperature' # reqs) \<and>
         prefix ms1 ms2"
proof -
  let ?W1 = "chat_gpt_wrapper E (default_messages w0) engine model max_tokens temperature R w0"
  from first have ms1: "ms1 = fst (snd ?W1)" and w1: "w1 = (snd (snd ?W1))\<lparr>default_messages := ms1\<rparr>"
    by (auto simp: chat_gpt_wrapper_default_def split: prod.splits)
  from w1 have d1: "default_messages w1 = ms1" by simp
  from wrapper_session [of E "default_messages w0" engine model max_tokens temperature R w0] answered ms1
  obtain replies where r: "ms1 = default_messages w0 @ map assistant replies" "replies \<noteq> []" "hd replies = reply"
    by blast
  then have "ms1 = default_messages w0 @ assistant reply # map assistant (tl replies)"
    by (cases replies) auto
  then have a: "\<exists>replies. ms1 = default_messages w0 @ assistant reply # map assistant replies" ..
  let ?W2 = "chat_gpt_wrapper E ms1 engine' model' max_tokens' temperature' R' w1"
  from second d1 have ms2: "ms2 = fst (snd ?W2)" and w2: "w2 = (snd (snd ?W2))\<lparr>default_messages := ms2\<rparr>"
    by (auto simp: chat_gpt_wrapper_default_def split: prod.splits)
  from wrapper_requests [of E ms1 engine' model' max_tokens' temperature' R' w1] w2
  have b: "\<exists>reqs. requests w2 = requests w1 @ create_request engine' model' ms1 max_tokens' temperature' # reqs"
    by auto
  from wrapper_session [of E ms1 engine' model' max_tokens' temperature' R' w1] ms2
  have c: "prefix ms1 ms2" by (auto simp: prefix_def)
  from d1 a b c show ?thesis by blast
qed

theorem default_session_is_shared_witness:
  "chat_gpt_wrapper_default valid_stub ''GPT4'' ''gpt-4'' 1000 0.2 0 empty_world =
     (Inr (Some ''pass''), [assistant fenced_valid], world_after_first) \<and>
   chat_gpt_wrapper_default valid_stub ''GPT4'' ''gpt-4'' 1000 0.2 0 world_after_first =
     (Inr (Some ''pass''), [assistant fenced_valid, assistant fenced_valid], world_after_second) \<and>
   completion valid_stub (length (requests empty_world))
     (create_request ''GPT4'' ''gpt-4'' (default_messages empty_world) 1000 0.2) = Inr fenced_valid \<and>
   default_messages world_after_first = [assistant fenced_valid] \<and>
   (\<exists>reqs. requests world_after_second =
      requests world_after_first @
      create_request ''GPT4'' ''gpt-4'' [assistant fenced_valid] 1000 0.2 # reqs)"
proof -
  have first: "chat_gpt_wrapper_default valid_stub ''GPT4'' ''gpt-4'' 1000 0.2 0 empty_world =
     (Inr (Some ''pass''), [assistant fenced_valid], world_after_first)"
    by (simp add: chat_gpt_wrapper_default_def chat_gpt_wrapper.simps valid_stub_def empty_world_def
        world_after_first_def extract_fenced_valid py_ast_parse_def Let_def)
  have second: "chat_gpt_wrapper_default valid_stub ''GPT4'' ''gpt-4'' 1000 0.2 0 world_after_first =
     (Inr (Some ''pass''), [assistant fenced_valid, assistant fenced_valid], world_after_second)"
    by (simp add: chat_gpt_wrapper_default_def chat_gpt_wrapper.simps valid_stub_def
        world_after_first_def world_after_second_def extract_fenced_valid py_ast_parse_def Let_def)
  have answered: "completion valid_stub (length (requests empty_world))
     (create_request ''GPT4'' ''gpt-4'' (default_messages empty_world) 1000 0.2) = Inr fenced_valid"
    by (simp add: valid_stub_def)
  from default_session_is_shared [OF first second answered] first second answered
  show ?thesis by blast
qed

subsection \<open>Dispatcher, splicing and the pipeline\<close>

lemma unit_test_path_of_windows_path: "unit_test_path_of windows_path = ''src_tset/m.py''"
  by (simp add: windows_path_def unit_test_path_of_def py_replace_first_def backslash_def)

text \<open>
  C7. For an entry with status \<open>D\<close> whose mapped artifact path exists, processing
  the entry raises nothing, leaves that path absent, leaves every other file as it
  was, and sends no request to the model.
\<close>

theorem deleted_entry_removes_artifact:
  assumes "files w (unit_test_path_of file_path) \<noteq> None"
  shows "fst (process_change E file_path ''D'' w) = None \<and>
         files (snd (process_change E file_path ''D'' w)) (unit_test_path_of file_path) = None \<and>
         requests (snd (process_change E file_path ''D'' w)) = requests w \<and>
         (\<forall>p. p \<noteq> unit_test_path_of file_path \<longrightarrow>
              files (snd (process_change E file_path ''D'' w)) p = files w p)"
  using assms by (simp add: process_change_def Let_def)

theorem deleted_entry_removes_artifact_witness:
  "files world_with_artifact (unit_test_path_of windows_path) \<noteq> None \<and>
   process_change valid_stub windows_path ''D'' world_with_artifact = (None, empty_world)"
proof -
  have h: "files world_with_artifact (unit_test_path_of windows_path) \<noteq> None"
    by (simp add: world_with_artifact_def unit_test_path_of_windows_path)
  have run: "process_change valid_stub windows_path ''D'' world_with_artifact = (None, empty_world)"
    by (simp add: process_change_def Let_def world_with_artifact_def unit_test_path_of_windows_path
        empty_world_def)
  from deleted_entry_removes_artifact [OF h, of valid_stub] h run show ?thesis by simp
qed

text \<open>
  C2, as the specification states it: an \<open>Added\<close> entry makes exactly one
  generation call and regenerates its artifact. On the code, processing the \<open>Added\<close> entry
  \<open>a/b/module.py\<close> sends no request and writes no file.
\<close>

theorem added_entry_issues_no_generation_call:
  "process_change valid_stub ''a/b/module.py'' ''A'' empty_world = (None, empty_world) \<and>
   length (requests (snd (process_change valid_stub ''a/b/module.py'' ''A'' empty_world)))
     \<noteq> length (requests empty_world) + 1 \<and>
   files (snd (process_change valid_stub ''a/b/module.py'' ''A'' empty_world)) = Map.empty"
  by (simp add: process_change_def Let_def valid_stub_def empty_world_def newline_def)

text \<open>
  C2, amended: for an entry with status \<open>A\<close> or \<open>M\<close> the dispatcher sends no
  request and changes no file; it obtains the diff of that file and prints the lines
  of it that begin with \<open>+ def\<close> or \<open>- def\<close>, and an exception of the diff
  command ends the run with the world unchanged.
\<close>

theorem added_or_modified_entry_only_prints:
  assumes "status = ''A'' \<or> status = ''M''"
  shows "requests (snd (process_change E file_path status w)) = requests w \<and>
         files (snd (process_change E file_path status w)) = files w \<and>
         (case git_diff E file_path of
            Inl e \<Rightarrow> process_change E file_path status w = (Some e, w)
          | Inr git_diff_output \<Rightarrow>
              fst (process_change E file_path status w) = None \<and>
              stdout (snd (process_change E file_path status w)) =
                stdout w @ filter (\<lambda>line. prefix ''+ def'' line \<or> prefix ''- def'' line)
                             (split_on newline git_diff_output))"
  using assms by (auto simp: process_change_def Let_def split: sum.splits)

theorem added_or_modified_entry_only_prints_witness:
  "(''M'' = ''A'' \<or> ''M'' = ''M'') \<and>
   process_change diff_stub ''a/b/module.py'' ''M'' empty_world =
     (None, empty_world\<lparr>stdout := [''+ def f(x):'', ''- def g():'']\<rparr>)"
proof -
  have h: "''M'' = ''A'' \<or> ''M'' = ''M''" by simp
  have run: "process_change diff_stub ''a/b/module.py'' ''M'' empty_world =
     (None, empty_world\<lparr>stdout := [''+ def f(x):'', ''- def g():'']\<rparr>)"
    by (simp add: process_change_def Let_def diff_stub_def empty_world_def newline_def)
  from added_or_modified_entry_only_prints [OF h, of diff_stub "''a/b/module.py''" empty_world]
  have "requests (snd (process_change diff_stub ''a/b/module.py'' ''M'' empty_world)) =
          requests empty_world"
    by (rule conjunct1)
  with h run show ?thesis by (intro conjI)
qed

lemma py_replace_absent: "\<not> sublist old s \<Longrightarrow> py_replace old new s = s"
proof -
  assume a: "\<not> sublist old s"
  then have "old \<noteq> []" by auto
  moreover from a have "find_first old s = None" by (simp add: find_first_None)
  ultimately show ?thesis by (simp add: py_replace.simps)
qed

text \<open>On the text of a file, a splice whose original text does not occur changes nothing.\<close>

lemma splice_documentation_absent:
  assumes "files w file_path = Some file_content"
    and "\<not> sublist function_to_test file_content"
  shows "\<exists>doc_code1. splice_documentation file_path function_to_test (Some doc_code) w
           = Inr (doc_code1, w)"
proof -
  from assms(1) have "(files w)(file_path \<mapsto> file_content) = files w"
    by (simp add: map_upd_triv)
  with assms show ?thesis
    by (simp add: splice_documentation_def Let_def py_replace_absent)
qed

lemma universal_newlines_without_cr:
  "carriage_return \<notin> set s \<Longrightarrow> universal_newlines s = s"
  by (induction s rule: universal_newlines.induct) auto

lemma write_translate_newline: "write_translate [newline] s = s"
  by (induction s) (simp_all add: write_translate_def)

text \<open>
  The text-level splice is the splice on the bytes when the codec is the identity,
  \<open>os.linesep\<close> is \<open>\n\<close> and the stored file holds no carriage return.
\<close>

lemma splice_documentation_on_disk:
  assumes "io_decode io = Inr" and "io_encode io = Inr" and "io_linesep io = [newline]"
    and "\<forall>stored. files w file_path = Some stored \<longrightarrow> carriage_return \<notin> set stored"
  shows "splice_documentation file_path function_to_test doc_code w =
           (case splice_on_disk io file_path function_to_test doc_code (files w) of
              Inl (e, disk) \<Rightarrow> Inl (e, w\<lparr>files := disk\<rparr>)
            | Inr (doc_code1, disk) \<Rightarrow> Inr (doc_code1, w\<lparr>files := disk\<rparr>))"
  using assms
  by (auto simp: splice_documentation_def splice_on_disk_def text_mode_read_def text_mode_write_def
      universal_newlines_without_cr write_translate_newline Let_def split: option.splits)

lemma text_mode_write_bytes_lf: "text_mode_write posix_ascii bytes_lf = Inr bytes_lf"
proof -
  have "text_mode_write posix_ascii bytes_lf = ascii_codec (write_translate [newline] bytes_lf)"
    by (simp add: text_mode_write_def posix_ascii_def)
  also have "\<dots> = ascii_codec bytes_lf"
    by (simp only: write_translate_newline)
  also have "\<dots> = Inr bytes_lf"
    by (simp add: ascii_codec_def bytes_lf_def newline_def)
  finally show ?thesis .
qed

lemma text_mode_read_bytes_lf: "text_mode_read posix_ascii bytes_lf = Inr bytes_lf"
  by (simp add: text_mode_read_def posix_ascii_def ascii_codec_def bytes_lf_def newline_def
      carriage_return_def)

lemma text_mode_read_bytes_crlf: "text_mode_read posix_ascii bytes_crlf = Inr bytes_lf"
  by (simp add: text_mode_read_def posix_ascii_def ascii_codec_def bytes_lf_def bytes_crlf_def
      newline_def carriage_return_def)

lemma text_mode_read_bytes_undecodable:
  "text_mode_read posix_ascii bytes_undecodable = Inl (OtherError ''UnicodeError'')"
  by (simp add: text_mode_read_def posix_ascii_def ascii_codec_def bytes_undecodable_def)

lemma absent_in_bytes_lf: "\<not> sublist ''def g(): pass'' bytes_lf"
  using find_first_None [of "''def g(): pass''" bytes_lf] by (simp add: bytes_lf_def newline_def)

lemma absent_in_bytes_crlf: "\<not> sublist ''def g(): pass'' bytes_crlf"
  using find_first_None [of "''def g(): pass''" bytes_crlf]
  by (simp add: bytes_crlf_def newline_def carriage_return_def)

lemma absent_in_bytes_undecodable: "\<not> sublist ''def g(): pass'' bytes_undecodable"
  using find_first_None [of "''def g(): pass''" bytes_undecodable]
  by (simp add: bytes_undecodable_def)

text \<open>
  C6, as the specification states it: when the original function text does not
  occur in the file, the file is byte for byte what it was and no error is
  signalled. On the code, a file with \<open>\r\n\<close> line ends in which the text does not
  occur is written back with \<open>\n\<close> line ends, and a file that the codec cannot
  decode makes the read raise.
\<close>

theorem splice_rewrites_crlf_file:
  "\<not> sublist ''def g(): pass'' bytes_crlf \<and>
   splice_on_disk posix_ascii ''m.py'' ''def g(): pass'' (Some ''def g() -> None: pass'') disk_crlf =
     Inr (''    def g() -> None: pass'', disk_lf) \<and>
   disk_crlf ''m.py'' = Some bytes_crlf \<and> disk_lf ''m.py'' = Some bytes_lf \<and>
   bytes_lf \<noteq> bytes_crlf \<and>
   \<not> sublist ''def g(): pass'' bytes_undecodable \<and>
   splice_on_disk posix_ascii ''m.py'' ''def g(): pass'' (Some ''def g() -> None: pass'')
     disk_undecodable = Inl (OtherError ''UnicodeError'', disk_undecodable)"
proof -
  have indent: "py_replace [newline] (newline # ''    '') ''def g() -> None: pass'' =
      ''def g() -> None: pass''"
    by (simp add: py_replace.simps newline_def)
  have b: "splice_on_disk posix_ascii ''m.py'' ''def g(): pass'' (Some ''def g() -> None: pass'')
      disk_crlf = Inr (''    def g() -> None: pass'', disk_lf)"
    by (simp add: splice_on_disk_def disk_crlf_def disk_lf_def text_mode_read_bytes_crlf
        py_replace_absent [OF absent_in_bytes_lf] indent text_mode_write_bytes_lf Let_def)
  have c: "disk_crlf ''m.py'' = Some bytes_crlf" "disk_lf ''m.py'' = Some bytes_lf"
    by (simp_all add: disk_lf_def disk_crlf_def)
  have d: "bytes_lf \<noteq> bytes_crlf"
    by (simp add: bytes_lf_def bytes_crlf_def carriage_return_def newline_def)
  have e: "splice_on_disk posix_ascii ''m.py'' ''def g(): pass'' (Some ''def g() -> None: pass'')
     disk_undecodable = Inl (OtherError ''UnicodeError'', disk_undecodable)"
    by (simp add: splice_on_disk_def disk_undecodable_def text_mode_read_bytes_undecodable)
  from absent_in_bytes_crlf b c d absent_in_bytes_undecodable e show ?thesis by (intro conjI)
qed

text \<open>
  C6, amended: when the file exists, its bytes decode, and the original function
  text does not occur in the text read from it, the splice leaves every other file
  alone and writes back exactly the text it read: with no error if that text
  encodes, and otherwise with the exception of the codec and the file left empty.
  The file is byte for byte what it was whenever writing that text gives the stored
  bytes again, as it does for a file without carriage returns that the codec maps to
  itself where \<open>os.linesep\<close> is \<open>\n\<close>.
\<close>

theorem splice_without_match_writes_back_what_it_read:
  assumes "disk file_path = Some stored"
    and "text_mode_read io stored = Inr file_content"
    and "\<not> sublist function_to_test file_content"
  shows "(case text_mode_write io file_content of
            Inl e \<Rightarrow>
              splice_on_disk io file_path function_to_test (Some doc_code) disk =
                Inl (e, disk(file_path \<mapsto> []))
          | Inr written \<Rightarrow>
              (\<exists>doc_code1. splice_on_disk io file_path function_to_test (Some doc_code) disk =
                 Inr (doc_code1, disk(file_path \<mapsto> written)))) \<and>
         (text_mode_write io file_content = Inr stored \<longrightarrow>
            (\<exists>doc_code1. splice_on_disk io file_path function_to_test (Some doc_code) disk =
               Inr (doc_code1, disk))) \<and>
         (carriage_return \<notin> set stored \<and> io_linesep io = [newline] \<and>
          io_decode io stored = Inr stored \<and> io_encode io stored = Inr stored \<longrightarrow>
            (\<exists>doc_code1. splice_on_disk io file_path function_to_test (Some doc_code) disk =
               Inr (doc_code1, disk)))"
proof -
  have same: "disk(file_path \<mapsto> stored) = disk"
    using assms(1) by (simp add: map_upd_triv)
  have general: "case text_mode_write io file_content of
            Inl e \<Rightarrow>
              splice_on_disk io file_path function_to_test (Some doc_code) disk =
                Inl (e, disk(file_path \<mapsto> []))
          | Inr written \<Rightarrow>
              (\<exists>doc_code1. splice_on_disk io file_path function_to_test (Some doc_code) disk =
                 Inr (doc_code1, disk(file_path \<mapsto> written)))"
    using assms
    by (simp add: splice_on_disk_def Let_def py_replace_absent split: sum.splits)
  have roundtrip: "text_mode_write io file_content = Inr stored \<longrightarrow>
            (\<exists>doc_code1. splice_on_disk io file_path function_to_test (Some doc_code) disk =
               Inr (doc_code1, disk))"
    using general same by auto
  have plain: "carriage_return \<notin> set stored \<and> io_linesep io = [newline] \<and>
          io_decode io stored = Inr stored \<and> io_encode io stored = Inr stored \<longrightarrow>
            (\<exists>doc_code1. splice_on_disk io file_path function_to_test (Some doc_code) disk =
               Inr (doc_code1, disk))"
  proof
    assume h: "carriage_return \<notin> set stored \<and> io_linesep io = [newline] \<and>
          io_decode io stored = Inr stored \<and> io_encode io stored = Inr stored"
    with assms(2) have "file_content = stored"
      by (simp add: text_mode_read_def universal_newlines_without_cr)
    with h have "text_mode_write io file_content = Inr stored"
      by (simp add: text_mode_write_def write_translate_newline)
    with roundtrip show "\<exists>doc_code1. splice_on_disk io file_path function_to_test (Some doc_code) disk =
               Inr (doc_code1, disk)" by simp
  qed
  from general roundtrip plain show ?thesis by (intro conjI)
qed

theorem splice_without_match_writes_back_what_it_read_witness:
  "disk_lf ''m.py'' = Some bytes_lf \<and>
   text_mode_read posix_ascii bytes_lf = Inr bytes_lf \<and>
   \<not> sublist ''def g(): pass'' bytes_lf \<and>
   text_mode_write posix_ascii bytes_lf = Inr bytes_lf \<and>
   (\<exists>doc_code1. splice_on_disk posix_ascii ''m.py'' ''def g(): pass''
        (Some ''def g() -> None: pass'') disk_lf = Inr (doc_code1, disk_lf))"
proof -
  have h1: "disk_lf ''m.py'' = Some bytes_lf" by (simp add: disk_lf_def)
  note h2 = text_mode_read_bytes_lf
  note h3 = absent_in_bytes_lf
  note h4 = text_mode_write_bytes_lf
  have "text_mode_write posix_ascii bytes_lf = Inr bytes_lf \<longrightarrow>
      (\<exists>doc_code1. splice_on_disk posix_ascii ''m.py'' ''def g(): pass''
        (Some ''def g() -> None: pass'') disk_lf = Inr (doc_code1, disk_lf))"
    using splice_without_match_writes_back_what_it_read
      [where disk = disk_lf and file_path = "''m.py''" and stored = bytes_lf and io = posix_ascii
         and file_content = bytes_lf and function_to_test = "''def g(): pass''"
         and doc_code = "''def g() -> None: pass''", OF h1 h2 h3]
    by (rule conjunct1 [OF conjunct2])
  with h4 have "\<exists>doc_code1. splice_on_disk posix_ascii ''m.py'' ''def g(): pass''
        (Some ''def g() -> None: pass'') disk_lf = Inr (doc_code1, disk_lf)"
    by (rule_tac mp)
  with h1 h2 h3 h4 show ?thesis by (intro conjI)
qed

lemma wrapper_single:
  "chat_gpt_wrapper E ms engine model mt temp 0 w = (Inr code, ms', w') \<Longrightarrow>
   \<exists>reply text. completion E (length (requests w)) (create_request engine model ms mt temp) = Inr reply \<and>
     ms' = ms @ [assistant reply] \<and> extract_all_python_code reply = Some text \<and> code = Some text \<and>
     requests w' = requests w @ [create_request engine model ms mt temp] \<and>
     files w' = files w"
  by (cases rule: wrapper_cases [where E=E and w=w and engine=engine and model=model and ms=ms and mt=mt and temp=temp and r=0])
     (auto simp: wrapper_service_error wrapper_parsed wrapper_other_error wrapper_exhausted print_def
        py_ast_parse_def split: option.splits)

lemma wrapper_no_code:
  assumes "completion E (length (requests w)) (create_request engine model ms mt temp) = Inr reply"
    and "findall_fenced reply = []"
  shows "chat_gpt_wrapper E ms engine model mt temp r w =
     (Inl TypeError, ms @ [assistant reply],
      w\<lparr>requests := requests w @ [create_request engine model ms mt temp]\<rparr>)"
proof -
  from assms(2) have "extract_all_python_code reply = None"
    by (simp add: extract_all_python_code_def)
  then have "py_ast_parse E (extract_all_python_code reply) = Some TypeError"
    by (simp add: py_ast_parse_def)
  from wrapper_other_error [OF assms(1) this] show ?thesis by simp
qed

lemma trim_session_length: "length (trim_session ms) \<le> 5"
  by (simp add: trim_session_def py_last_n_def)

lemma trim_session_hd: "ms \<noteq> [] \<Longrightarrow> hd (trim_session ms) = hd ms"
  by (cases ms) (simp_all add: trim_session_def)

lemma process_method_sessions:
  assumes "process_method E doc_package file_path class_method L w = Inr (L', w')"
  shows "(\<exists>request reply. messages L' = messages L @ [user request, assistant reply]) \<and>
         length (doc_messages L') \<le> 5 \<and>
         (doc_messages L \<noteq> [] \<longrightarrow> hd (doc_messages L') = hd (doc_messages L))"
proof -
  from assms obtain cn function_name function_to_test doc_code doc_messages1 w1 doc_code1 w2
      unit_test_code messages1 w3 w4
    where names: "method_names class_method = Inr (cn, function_name)"
      and src: "py_getsource class_method = Inr function_to_test"
      and doc: "chat_gpt_wrapper E
             (doc_messages L @ [user (doc_request function_to_test cn doc_package)])
             ''GPT4'' ''gpt-4'' 1000 0.2 0 w = (Inr doc_code, doc_messages1, w1)"
      and splice: "splice_documentation file_path function_to_test doc_code w1 = Inr (doc_code1, w2)"
      and test: "chat_gpt_wrapper E
             (messages L @
                [user (request_for_unit_test function_name cn function_to_test file_path)])
             ''GPT4'' ''gpt-4'' 1000 0.2 0 w2 = (Inr unit_test_code, messages1, w3)"
      and L': "L' = \<lparr>messages = messages1, doc_messages = trim_session doc_messages1, class_name = Some cn,
                generated_unit_test = generated_unit_test L @ function_name @ '' in class '' @ cn @ ''`'' @ [newline] @
            py_format unit_test_code\<rparr>"
    by (auto simp: process_method_def Let_def split: sum.splits prod.splits)
  from wrapper_single [OF test] obtain reply where
    "messages1 = (messages L @ [user (request_for_unit_test function_name cn function_to_test file_path)]) @ [assistant reply]"
    by blast
  with L' have a: "\<exists>request reply. messages L' = messages L @ [user request, assistant reply]" by auto
  from wrapper_single [OF doc] obtain dreply where
    d: "doc_messages1 = (doc_messages L @ [user (doc_request function_to_test cn doc_package)]) @ [assistant dreply]"
    by blast
  from L' have b: "length (doc_messages L') \<le> 5" by (simp add: trim_session_length)
  have c: "doc_messages L \<noteq> [] \<longrightarrow> hd (doc_messages L') = hd (doc_messages L)"
  proof
    assume ne: "doc_messages L \<noteq> []"
    with d have "doc_messages1 \<noteq> []" and "hd doc_messages1 = hd (doc_messages L)" by simp_all
    with L' show "hd (doc_messages L') = hd (doc_messages L)" by (simp add: trim_session_hd)
  qed
  from a b c show ?thesis by blast
qed

lemma method_names_f: "method_names method_f = Inr (''C'', ''f'')"
  by (simp add: method_names_def method_f_def py_index_def)

lemma method_names_g: "method_names method_g = Inr (''C'', ''g'')"
  by (simp add: method_names_def method_g_def py_index_def)

lemma method_names_h: "method_names method_h = Inr (''C'', ''h'')"
  by (simp add: method_names_def method_h_def py_index_def)

lemma wrapper_valid_stub:
  "chat_gpt_wrapper valid_stub ms engine model mt temp r w =
     (Inr (Some ''pass''), ms @ [assistant fenced_valid],
      w\<lparr>requests := requests w @ [create_request engine model ms mt temp]\<rparr>)"
  by (rule trans [OF wrapper_parsed [where reply = fenced_valid]])
     (simp_all add: valid_stub_def extract_fenced_valid py_ast_parse_def)

lemma process_method_valid_stub:
  assumes "method_names m = Inr (cn, fn)" and "py_getsource m = Inr src"
    and "files w file_path \<noteq> None"
  shows "\<exists>w'. process_method valid_stub doc_package file_path m L w =
           Inr (\<lparr>messages = messages L @ [user (request_for_unit_test fn cn src file_path),
                                            assistant fenced_valid],
                 doc_messages = trim_session (doc_messages L @
                    [user (doc_request src cn doc_package), assistant fenced_valid]),
                 class_name = Some cn,
                 generated_unit_test =
                   generated_unit_test L @ fn @ '' in class '' @ cn @ ''`'' @ [newline] @ ''pass''\<rparr>,
                w') \<and>
         files w' file_path \<noteq> None"
  using assms
  by (auto simp: process_method_def wrapper_valid_stub Let_def splice_documentation_def
      write_file_def py_format_def)

text \<open>
  C3. The specification states that after each exchange either session is cut
  back to the system message and the last four messages. On the code, a class with three methods
  leaves the test-generation session with the system message and six more
  messages, while the documentation session holds five.
\<close>

theorem test_session_is_never_trimmed:
  "\<exists>L' w'. process_methods valid_stub ''sphinx'' ''m.py''
            [(''f'', method_f), (''g'', method_g), (''h'', method_h)] start_locals world_with_source
          = Inr (L', w') \<and>
     length (messages start_locals) = 1 \<and> length (messages L') = 7 \<and>
     length (doc_messages L') = 5"
proof -
  have f0: "files world_with_source ''m.py'' \<noteq> None" by (simp add: world_with_source_def)
  from process_method_valid_stub [OF method_names_f _ f0, of "''def f(): pass''" "''sphinx''" start_locals]
  obtain L1 w1 where s1: "process_method valid_stub ''sphinx'' ''m.py'' method_f start_locals world_with_source = Inr (L1, w1)"
    and l1: "length (messages L1) = 3" "length (doc_messages L1) = 3" and f1: "files w1 ''m.py'' \<noteq> None"
    by (auto simp: method_f_def start_locals_def initial_locals_def trim_session_def)
  from process_method_valid_stub [OF method_names_g _ f1, of "''def g(): pass''" "''sphinx''" L1]
  obtain L2 w2 where s2: "process_method valid_stub ''sphinx'' ''m.py'' method_g L1 w1 = Inr (L2, w2)"
    and l2: "length (messages L2) = 5" "length (doc_messages L2) = 5" and f2: "files w2 ''m.py'' \<noteq> None"
    using l1 by (auto simp: method_g_def trim_session_def py_last_n_def)
  from process_method_valid_stub [OF method_names_h _ f2, of "''def h(): pass''" "''sphinx''" L2]
  obtain L3 w3 where s3: "process_method valid_stub ''sphinx'' ''m.py'' method_h L2 w2 = Inr (L3, w3)"
    and l3: "length (messages L3) = 7" "length (doc_messages L3) = 5"
    using l2 by (auto simp: method_h_def trim_session_def py_last_n_def)
  have "process_methods valid_stub ''sphinx'' ''m.py''
            [(''f'', method_f), (''g'', method_g), (''h'', method_h)] start_locals world_with_source
          = Inr (L3, w3)"
    by (simp add: s1 s2 s3)
  moreover have "length (messages start_locals) = 1"
    by (simp add: start_locals_def initial_locals_def)
  ultimately show ?thesis using l3 by blast
qed



lemma start_locals_reset: "start_locals\<lparr>generated_unit_test := []\<rparr> = start_locals"
  by (simp add: start_locals_def initial_locals_def)


text \<open>
  The extractor returns \<open>None\<close> exactly for the texts that hold no start marker
  followed, anywhere later, by an end marker.
\<close>

lemma findall_fenced_empty_iff:
  "findall_fenced s = [] \<longleftrightarrow>
     \<not> (\<exists>pre body post. s = pre @ start_marker @ body @ end_marker @ post)"
proof
  assume empty: "findall_fenced s = []"
  show "\<not> (\<exists>pre body post. s = pre @ start_marker @ body @ end_marker @ post)"
  proof
    assume "\<exists>pre body post. s = pre @ start_marker @ body @ end_marker @ post"
    then obtain pre body post where s: "s = pre @ start_marker @ body @ end_marker @ post"
      by blast
    then have "sublist start_marker s" by (auto simp: sublist_def)
    then obtain a rest where a: "find_first start_marker s = Some (a, rest)"
      using find_first_None [of start_marker s] by (cases "find_first start_marker s") auto
    from find_first_Some [OF a] have s': "s = a @ start_marker @ rest" .
    from find_first_leftmost [OF a s] have le: "length a \<le> length pre" .
    from s' have "rest = drop (length a + length start_marker) s" by simp
    also have "\<dots> = drop (length a + length start_marker) (pre @ start_marker) @
        body @ end_marker @ post"
      using le by (simp add: s)
    finally have "sublist end_marker rest"
      unfolding sublist_def by (metis append.assoc)
    then obtain b rest' where "find_first end_marker rest = Some (b, rest')"
      using find_first_None [of end_marker rest] by (cases "find_first end_marker rest") auto
    with a have "findall_fenced s \<noteq> []" by (simp add: findall_fenced.simps)
    with empty show False by simp
  qed
next
  assume none: "\<not> (\<exists>pre body post. s = pre @ start_marker @ body @ end_marker @ post)"
  show "findall_fenced s = []"
  proof (rule ccontr)
    assume "findall_fenced s \<noteq> []"
    then obtain a rest b rest' where "find_first start_marker s = Some (a, rest)"
      and "find_first end_marker rest = Some (b, rest')"
      by (auto simp: findall_fenced.simps [of s] split: option.splits)
    then have "s = a @ start_marker @ b @ end_marker @ rest'"
      by (auto dest!: find_first_Some)
    with none show False by blast
  qed
qed

lemma extract_all_python_code_None_iff:
  "extract_all_python_code s = None \<longleftrightarrow>
     \<not> (\<exists>pre body post. s = pre @ start_marker @ body @ end_marker @ post)"
  by (simp add: extract_all_python_code_def Let_def findall_fenced_empty_iff)

lemma findall_fenced_plain: "findall_fenced ''I cannot help with that.'' = []"
  by (simp add: findall_fenced.simps start_marker_def)

text \<open>
  C5. The specification states that with no fenced block the extractor returns the
  no-code signal and the later write produces a file with a placeholder, without ending the run. On the
  code the extractor returns \<open>None\<close>, \<open>ast.parse(None)\<close> raises \<open>TypeError\<close>,
  which \<open>except SyntaxError\<close> does not catch: the run ends and no file is written.
\<close>

theorem no_code_aborts_the_run:
  "extract_all_python_code ''I cannot help with that.'' = None \<and>
   fst (chat_gpt_wrapper nocode_stub [] ''GPT4'' ''gpt-4'' 1000 0.2 0 empty_world) = Inl TypeError \<and>
   fst (generate_unit_test nocode_stub [(''m.py'', Some [(''C'', Methods [(''f'', method_f)])])]
     ''{}'' ''a repo'' ''pytest'' ''sphinx'' ''Python 3.9'' ''GPT4'' ''gpt-4'' 1000 0.4 world_with_source)
     = Some TypeError \<and>
   files (snd (generate_unit_test nocode_stub [(''m.py'', Some [(''C'', Methods [(''f'', method_f)])])]
     ''{}'' ''a repo'' ''pytest'' ''sphinx'' ''Python 3.9'' ''GPT4'' ''gpt-4'' 1000 0.4 world_with_source))
     = files world_with_source"
proof -
  have c: "\<And>n req. completion nocode_stub n req = Inr ''I cannot help with that.''"
    by (simp add: nocode_stub_def)
  have getsource_f: "py_getsource method_f = Inr ''def f(): pass''" by (simp add: method_f_def)
  have a: "extract_all_python_code ''I cannot help with that.'' = None"
    by (simp add: extract_all_python_code_def findall_fenced_plain)
  have b: "fst (chat_gpt_wrapper nocode_stub [] ''GPT4'' ''gpt-4'' 1000 0.2 0 empty_world) = Inl TypeError"
    by (simp add: wrapper_no_code [OF c findall_fenced_plain])
  have m: "process_method nocode_stub ''sphinx'' ''m.py'' method_f start_locals world_with_source =
     Inl (TypeError, world_with_source\<lparr>requests := requests world_with_source @
       [create_request ''GPT4'' ''gpt-4''
          (doc_messages start_locals @ [user (doc_request ''def f(): pass'' ''C'' ''sphinx'')]) 1000 0.2]\<rparr>)"
    by (simp add: process_method_def method_names_f getsource_f
        wrapper_no_code [OF c findall_fenced_plain])
  have run: "generate_unit_test nocode_stub [(''m.py'', Some [(''C'', Methods [(''f'', method_f)])])]
     ''{}'' ''a repo'' ''pytest'' ''sphinx'' ''Python 3.9'' ''GPT4'' ''gpt-4'' 1000 0.4 world_with_source =
     (Some TypeError, world_with_source\<lparr>requests := requests world_with_source @
       [create_request ''GPT4'' ''gpt-4''
          (doc_messages start_locals @ [user (doc_request ''def f(): pass'' ''C'' ''sphinx'')]) 1000 0.2]\<rparr>)"
    by (simp add: generate_unit_test_def Let_def start_locals_def [symmetric] start_locals_reset m)
  from a b run show ?thesis by simp
qed

end
